theory Spec2Isabelle
  imports Main "HOL-Library.AList"
begin

section \<open>Go strings\<close>

text \<open>
  A Go string is a byte sequence; it is modelled as a \<open>string\<close> (a list of bytes).
  The case mappings and character classes below are those of the Go library on ASCII:
  a byte outside \<open>a..z\<close> is left alone by the case mappings, and only \<open>A..Z\<close> counts
  as upper case. Names with bytes beyond ASCII are outside this model.
\<close>

definition lower_letters :: string where
  "lower_letters = ''abcdefghijklmnopqrstuvwxyz''"

definition upper_letters :: string where
  "upper_letters = ''ABCDEFGHIJKLMNOPQRSTUVWXYZ''"

definition digit_chars :: string where
  "digit_chars = ''0123456789''"

definition toUpper_char :: "char \<Rightarrow> char" where
  "toUpper_char c = (case map_of (zip lower_letters upper_letters) c of Some u \<Rightarrow> u | None \<Rightarrow> c)"

definition toLower_char :: "char \<Rightarrow> char" where
  "toLower_char c = (case map_of (zip upper_letters lower_letters) c of Some u \<Rightarrow> u | None \<Rightarrow> c)"

definition ToLower :: "string \<Rightarrow> string" where
  "ToLower s = map toLower_char s"

definition IsUpper :: "char \<Rightarrow> bool" where
  "IsUpper c = (c \<in> set upper_letters)"

text \<open>\<open>strings.Title\<close>: a letter that follows a separator (or starts the string) is mapped to
  title case. ASCII letters, digits and the underscore are not separators; every other
  ASCII byte is.\<close>

definition isSeparator :: "char \<Rightarrow> bool" where
  "isSeparator c = (c \<notin> set (digit_chars @ lower_letters @ upper_letters @ ''_''))"

fun Title_from :: "char \<Rightarrow> string \<Rightarrow> string" where
  "Title_from prev [] = []"
| "Title_from prev (c # cs) = (if isSeparator prev then toUpper_char c else c) # Title_from c cs"

definition Title :: "string \<Rightarrow> string" where
  "Title s = Title_from (CHR '' '') s"

text \<open>\<open>strings.Split(s, sep)\<close> for a one-byte separator: the pieces between the separators,
  \<open>[""]\<close> for the empty string.\<close>

fun Split :: "char \<Rightarrow> string \<Rightarrow> string list" where
  "Split sep [] = [[]]"
| "Split sep (c # cs) =
     (if c = sep then [] # Split sep cs
      else (case Split sep cs of [] \<Rightarrow> [[c]] | p # ps \<Rightarrow> (c # p) # ps))"

definition HasPrefix :: "string \<Rightarrow> string \<Rightarrow> bool" where
  "HasPrefix s p = (take (length p) s = p)"

definition TrimPrefix :: "string \<Rightarrow> string \<Rightarrow> string" where
  "TrimPrefix s p = (if HasPrefix s p then drop (length p) s else s)"

text \<open>\<open>strings.Trim(s, cutset)\<close> for a one-byte cutset.\<close>

definition Trim :: "string \<Rightarrow> char \<Rightarrow> string" where
  "Trim s c = rev (dropWhile (\<lambda>x. x = c) (rev (dropWhile (\<lambda>x. x = c) s)))"

text \<open>\<open>strings.Index(s, sep)\<close> for a one-byte separator; \<open>None\<close> stands for \<open>-1\<close>.\<close>

fun Index :: "string \<Rightarrow> char \<Rightarrow> nat option" where
  "Index [] c = None"
| "Index (x # xs) c = (if x = c then Some 0 else map_option Suc (Index xs c))"

fun Join :: "string list \<Rightarrow> string \<Rightarrow> string" where
  "Join [] sep = []"
| "Join [x] sep = x"
| "Join (x # y # ys) sep = x @ sep @ Join (y # ys) sep"

text \<open>\<open>strings.ToUpper(p[:1]) + p[1:]\<close>: slicing \<open>[:1]\<close> of the empty string panics; \<open>None\<close> is
  the panic.\<close>

fun upperFirst :: "string \<Rightarrow> string option" where
  "upperFirst [] = None"
| "upperFirst (c # cs) = Some (toUpper_char c # cs)"

section \<open>Reflection: types and methods\<close>

text \<open>A \<open>reflect.Type\<close>: a pointer, a struct with its name, package path and fields (each a
  name and a package path, empty for an exported field), or any other type with its name
  and package path.\<close>

datatype gotype =
    TPtr gotype
  | TStruct string string "(string \<times> string) list"
  | TOther string string

fun type_Name :: "gotype \<Rightarrow> string" where
  "type_Name (TPtr t) = []"
| "type_Name (TStruct n p fs) = n"
| "type_Name (TOther n p) = n"

fun type_PkgPath :: "gotype \<Rightarrow> string" where
  "type_PkgPath (TPtr t) = []"
| "type_PkgPath (TStruct n p fs) = p"
| "type_PkgPath (TOther n p) = p"

fun isPtr :: "gotype \<Rightarrow> bool" where
  "isPtr (TPtr t) = True"
| "isPtr t = False"

text \<open>\<open>t.Elem()\<close>, used by the source only after the kind was checked to be a pointer.\<close>

fun Elem :: "gotype \<Rightarrow> gotype" where
  "Elem (TPtr t) = t"
| "Elem t = t"

definition httpReqType :: gotype where
  "httpReqType = TPtr (TStruct ''Request'' ''net/http'' [])"

definition errorType :: gotype where
  "errorType = TOther ''error'' []"

definition emptyStruct :: gotype where
  "emptyStruct = TStruct [] [] []"

text \<open>An error value: an ordinary error with its message, or the JSON codec's \<open>*Error\<close>
  carrying a \<open>Data\<close> payload. \<open>'v\<close> is the type of Go values (arguments, replies, payloads).\<close>

datatype 'v goerror = ErrorString string | JSONError 'v

section \<open>The service registry\<close>

text \<open>\<open>isExported\<close> decodes the first rune of the name and asks \<open>unicode.IsUpper\<close>. For a name
  that starts with an ASCII byte, and for the empty name, that is the test below; a name that
  starts with a byte beyond ASCII is outside the model (the test is false on it, where the
  code may find an upper-case letter).\<close>

definition isExported :: "string \<Rightarrow> bool" where
  "isExported name = (case name of [] \<Rightarrow> False | c # cs \<Rightarrow> IsUpper c)"

fun isExportedOrBuiltin :: "gotype \<Rightarrow> bool" where
  "isExportedOrBuiltin (TPtr t) = isExportedOrBuiltin t"
| "isExportedOrBuiltin t = (isExported (type_Name t) \<or> type_PkgPath t = [])"

subsection \<open>Requests\<close>

text \<open>
  The transport is outside the repository. A request is the record of what the code reads
  from \<open>*http.Request\<close>: the verb, \<open>URL.Path\<close>, the \<open>Content-Type\<close> header, the outcome of
  \<open>ParseForm\<close> (an error or none) with the parsed \<open>Form\<close>, and the outcome of decoding the
  body as a JSON \<open>serverRequest\<close> (an error message, or the \<open>method\<close> field with the raw
  \<open>params\<close>, absent when the field is).
\<close>

datatype params = RawJSON string | FormJSON "(string \<times> string list) list"

record serverRequest =
  sr_Method :: string
  sr_Params :: "params option"

record request =
  r_Method :: string
  r_Path :: string
  r_ContentType :: string
  r_ParseFormErr :: "string option"
  r_Form :: "(string \<times> string list) list"
  r_Body :: "string + serverRequest"

record 'v RequestInfo =
  ri_Method :: string
  ri_Error :: "'v goerror option"
  ri_Request :: request
  ri_StatusCode :: nat

text \<open>A method of a receiver as reflection shows it: its name, its package path (empty
  when exported), the types of its inputs (the receiver first) and outputs, and the function
  itself. The function is bound to its receiver; it takes the request, the args (absent for the
  two-parameter shape) and the reply it fills, and gives back the error and the reply.\<close>

record 'v gomethod =
  m_Name :: string
  m_PkgPath :: string
  m_In :: "gotype list"
  m_Out :: "gotype list"
  m_Func :: "request \<Rightarrow> 'v option \<Rightarrow> 'v \<Rightarrow> 'v goerror option \<times> 'v"

record 'v receiver =
  rcvr_TypeName :: string
  rcvr_Methods :: "'v gomethod list"

record 'v serviceMethod =
  sm_method :: "'v gomethod"
  sm_argsType :: gotype
  sm_replyType :: gotype
  sm_noArgs :: bool

record 'v service =
  svc_name :: string
  svc_rcvr :: "'v receiver"
  svc_methods :: "(string \<times> 'v serviceMethod) list"

text \<open>\<open>serviceMap.services\<close> is a Go map, \<open>nil\<close> until the first registration: \<open>None\<close> is
  the nil map, \<open>Some\<close> an association list with distinct keys.\<close>

type_synonym 'v serviceMap = "(string \<times> 'v service) list option"

definition services_of :: "'v serviceMap \<Rightarrow> (string \<times> 'v service) list" where
  "services_of m = (case m of None \<Rightarrow> [] | Some al \<Rightarrow> al)"

datatype regerror =
    NotExported string
  | AlreadyDefined string
  | NoSuitableMethods string

text \<open>One round of the loop over the receiver's methods: \<open>None\<close> is \<open>continue\<close>.\<close>

definition method_spec :: "'v gomethod \<Rightarrow> 'v serviceMethod option" where
  "method_spec method =
    (if \<not> isExported (m_Name method) then None
     else if m_PkgPath method \<noteq> [] then None
     else if length (m_In method) \<noteq> 4 \<and> length (m_In method) \<noteq> 3 then None
     else let noArgs = (length (m_In method) = 3) in
       if m_In method ! 1 \<noteq> httpReqType then None
       else if \<not> noArgs then
         (let argType = m_In method ! 2; replyType = m_In method ! 3 in
          if \<not> isPtr argType then None
          else if \<not> isExportedOrBuiltin argType then None
          else if \<not> isPtr replyType then None
          else if \<not> isExportedOrBuiltin replyType then None
          else if length (m_Out method) \<noteq> 1 then None
          else if m_Out method ! 0 \<noteq> errorType then None
          else Some \<lparr>sm_method = method, sm_argsType = Elem argType,
                     sm_replyType = Elem replyType, sm_noArgs = noArgs\<rparr>)
       else
         (let replyType = m_In method ! 2; argType = TPtr emptyStruct in
          if \<not> isPtr replyType then None
          else if \<not> isExportedOrBuiltin replyType then None
          else if length (m_Out method) \<noteq> 1 then None
          else if m_Out method ! 0 \<noteq> errorType then None
          else Some \<lparr>sm_method = method, sm_argsType = Elem argType,
                     sm_replyType = Elem replyType, sm_noArgs = noArgs\<rparr>))"

fun setup_methods ::
  "'v gomethod list \<Rightarrow> (string \<times> 'v serviceMethod) list \<Rightarrow> (string \<times> 'v serviceMethod) list" where
  "setup_methods [] ms = ms"
| "setup_methods (method # rest) ms =
     (case method_spec method of
        None \<Rightarrow> setup_methods rest ms
      | Some sm \<Rightarrow> setup_methods rest (AList.update (m_Name method) sm ms))"

text \<open>\<open>register\<close> gives back the error (or none) and the registry as the call leaves it.\<close>

definition register ::
  "'v serviceMap \<Rightarrow> 'v receiver \<Rightarrow> string \<Rightarrow> regerror option \<times> 'v serviceMap" where
  "register m rcvr name =
    (let sname = (if name \<noteq> [] then name else rcvr_TypeName rcvr) in
     if name = [] \<and> \<not> isExported sname then (Some (NotExported sname), m)
     else if m \<noteq> None \<and> map_of (services_of m) sname \<noteq> None
       then (Some (AlreadyDefined sname), m)
     else
       let m1 = Some (services_of m);
           ms = setup_methods (rcvr_Methods rcvr) []
       in if ms = [] then (Some (NoSuitableMethods sname), m1)
          else (None, Some (AList.update sname
                  \<lparr>svc_name = sname, svc_rcvr = rcvr, svc_methods = ms\<rparr> (services_of m))))"

text \<open>\<open>get\<close>: the error is the message of \<open>errors.New\<close>.\<close>

definition get :: "'v serviceMap \<Rightarrow> string \<Rightarrow> string + ('v service \<times> 'v serviceMethod)" where
  "get m method =
    (let parts = Split (CHR ''.'') method in
     if length parts \<noteq> 2 then Inl (''rpc: service/method request ill-formed: '' @ method)
     else let p0 = Title (parts ! 0); p1 = Title (parts ! 1) in
       (case map_of (services_of m) p0 of
          None \<Rightarrow> Inl (''rpc: can't find service '' @ p0)
        | Some service \<Rightarrow>
            (case map_of (svc_methods service) p1 of
               None \<Rightarrow> Inl (''rpc: can't find method '' @ p1)
             | Some serviceMethod \<Rightarrow> Inr (service, serviceMethod))))"

text \<open>\<open>capitalizeMethod\<close>: \<open>None\<close> is the panic of slicing an empty segment.\<close>

definition capitalizeMethod :: "string \<Rightarrow> string option" where
  "capitalizeMethod method =
    (let parts = Split (CHR ''.'') method in
     if length parts \<noteq> 2 then Some method
     else (case upperFirst (parts ! 0) of
             None \<Rightarrow> None
           | Some service \<Rightarrow>
               (case upperFirst (parts ! 1) of
                  None \<Rightarrow> None
                | Some methodName \<Rightarrow> Some (service @ ''.'' @ methodName))))"

text \<open>\<open>getNormalizedMethod\<close>: \<open>None\<close> is a panic, \<open>Some (Inl msg)\<close> the error, \<open>Some (Inr n)\<close> the
  name.\<close>

definition getNormalizedMethod :: "'v serviceMap \<Rightarrow> string \<Rightarrow> (string + string) option" where
  "getNormalizedMethod m method =
    (if \<not> isl (get m method) then Some (Inr method)
     else (case capitalizeMethod method of
             None \<Rightarrow> None
           | Some methodCapitalized \<Rightarrow>
               if methodCapitalized \<noteq> method \<and> \<not> isl (get m methodCapitalized)
               then Some (Inr methodCapitalized)
               else Some (Inl (''rpc: method not found: '' @ method))))"

section \<open>The JSON codec\<close>

text \<open>
  The JSON encoding itself is outside the repository. What the code needs of it is taken as
  parameters: \<open>Unmarshal\<close> decodes raw params into a value of a type or fails with a
  message, \<open>Zero\<close> is the zero value \<open>reflect.New\<close> allocates, and \<open>MarshalErr\<close> says whether
  \<open>json.Marshal\<close> fails on a Go value (strings and \<open>null\<close> always encode).
\<close>

record 'v runtime =
  Unmarshal :: "params \<Rightarrow> gotype \<Rightarrow> string + 'v"
  Zero :: "gotype \<Rightarrow> 'v"
  MarshalErr :: "'v \<Rightarrow> string option"

datatype 'v jval = JNull | JString string | JValue 'v

text \<open>What is written to the \<open>ResponseWriter\<close>: the body is the \<open>serverResponse\<close> that was
  marshalled (its \<open>result\<close> and its \<open>error\<close>), or plain text.\<close>

datatype 'v body = JSONBody "'v jval" "'v jval" | TextBody string

record 'v response =
  resp_status :: nat
  resp_contentType :: string
  resp_body :: "'v body"

record codecRequest =
  cr_request :: "serverRequest option"
  cr_err :: "string option"

definition Form_Get :: "(string \<times> string list) list \<Rightarrow> string \<Rightarrow> string" where
  "Form_Get form key = (case map_of form key of None \<Rightarrow> [] | Some vs \<Rightarrow> (case vs of [] \<Rightarrow> [] | v # _ \<Rightarrow> v))"

text \<open>\<open>extractMethodFromURL\<close>; \<open>None\<close> is the panic of slicing an empty segment. The three
  sources are kept as functions of their own so that the order can be stated.\<close>

definition methodFromPrefix :: "request \<Rightarrow> string" where
  "methodFromPrefix r =
    (if HasPrefix (r_Path r) ''/rpc/'' then TrimPrefix (r_Path r) ''/rpc/'' else [])"

definition methodFromLastPart :: "request \<Rightarrow> string" where
  "methodFromLastPart r =
    (let pathParts = Split (CHR ''/'') (Trim (r_Path r) (CHR ''/'')) in
     if length pathParts > 0 \<and> last pathParts \<noteq> [] then last pathParts else [])"

definition rawMethodFromURL :: "request \<Rightarrow> string" where
  "rawMethodFromURL r =
    (let methodName = methodFromPrefix r;
         methodName = (if methodName = [] then methodFromLastPart r else methodName);
         methodName = (if methodName = [] then Form_Get (r_Form r) ''method'' else methodName)
     in methodName)"

definition extractMethodFromURL :: "request \<Rightarrow> string option" where
  "extractMethodFromURL r =
    (let methodName = rawMethodFromURL r in
     if methodName \<noteq> [] then
       (let parts = Split (CHR ''.'') methodName in
        if length parts = 2 then
          (case upperFirst (parts ! 0) of
             None \<Rightarrow> None
           | Some service \<Rightarrow>
               (case upperFirst (parts ! 1) of
                  None \<Rightarrow> None
                | Some method \<Rightarrow> Some (service @ ''.'' @ method)))
        else Some methodName)
     else Some methodName)"

text \<open>When the body fails to decode and the URL gives no name, the request kept beside the
  error is whatever the decoder left; nothing reads it, and it is the zero request here.\<close>

definition newPostCodecRequest :: "request \<Rightarrow> string \<Rightarrow> codecRequest" where
  "newPostCodecRequest r methodFromURL =
    (case r_Body r of
       Inr req \<Rightarrow>
         \<lparr>cr_request = Some (if methodFromURL \<noteq> [] \<and> sr_Method req = []
                              then req\<lparr>sr_Method := methodFromURL\<rparr> else req),
          cr_err = None\<rparr>
     | Inl err \<Rightarrow>
         if methodFromURL \<noteq> []
         then \<lparr>cr_request = Some \<lparr>sr_Method = methodFromURL, sr_Params = None\<rparr>, cr_err = None\<rparr>
         else \<lparr>cr_request = Some \<lparr>sr_Method = [], sr_Params = None\<rparr>, cr_err = Some err\<rparr>)"

text \<open>\<open>convertURLParamsToJSON\<close> deletes the \<open>method\<close> key from the form it is given, which is
  the \<open>Form\<close> map of the request itself: it gives back the params and the form as the deletion
  leaves it. A key with no value is left out of the params.\<close>

definition convertURLParamsToJSON ::
  "(string \<times> string list) list \<Rightarrow> params \<times> (string \<times> string list) list" where
  "convertURLParamsToJSON form =
     (let form' = filter (\<lambda>(key, values). key \<noteq> ''method'') form
      in (FormJSON (filter (\<lambda>(key, values). values \<noteq> []) form'), form'))"

text \<open>\<open>newGetCodecRequest\<close>: the codec request, and the request as the call leaves it (its
  \<open>Form\<close> without the \<open>method\<close> key once the params were built).\<close>

definition newGetCodecRequest :: "request \<Rightarrow> string \<Rightarrow> codecRequest \<times> request" where
  "newGetCodecRequest r methodFromURL =
    (if methodFromURL = []
     then (\<lparr>cr_request = None, cr_err = Some ''rpc: method name missing''\<rparr>, r)
     else (let (paramsJSON, form') = convertURLParamsToJSON (r_Form r) in
           (\<lparr>cr_request = Some \<lparr>sr_Method = methodFromURL, sr_Params = Some paramsJSON\<rparr>,
             cr_err = None\<rparr>,
            r\<lparr>r_Form := form'\<rparr>)))"

text \<open>\<open>Codec.NewRequest\<close>: the codec request and the request as the call leaves it; \<open>None\<close> is
  a panic.\<close>

definition NewRequest :: "request \<Rightarrow> (codecRequest \<times> request) option" where
  "NewRequest r =
    (case r_ParseFormErr r of
       Some err \<Rightarrow> Some (\<lparr>cr_request = None, cr_err = Some err\<rparr>, r)
     | None \<Rightarrow>
         (case extractMethodFromURL r of
            None \<Rightarrow> None
          | Some methodFromURL \<Rightarrow>
              if r_Method r = ''GET'' then Some (newGetCodecRequest r methodFromURL)
              else Some (newPostCodecRequest r methodFromURL, r)))"

text \<open>\<open>CodecRequest.Method\<close>: the error or the name; \<open>None\<close> is the nil dereference of a request
  that is absent without an error (no constructor builds one).\<close>

definition Method :: "codecRequest \<Rightarrow> (string + string) option" where
  "Method c =
    (case cr_err c of
       None \<Rightarrow> (case cr_request c of None \<Rightarrow> None | Some req \<Rightarrow> Some (Inr (sr_Method req)))
     | Some err \<Rightarrow> Some (Inl err))"

text \<open>\<open>CodecRequest.ReadRequest\<close> into a fresh zero value of the type: the error, or the
  decoded args.\<close>

definition ReadRequest :: "'v runtime \<Rightarrow> codecRequest \<Rightarrow> gotype \<Rightarrow> (string + 'v) option" where
  "ReadRequest rt c t =
    (case cr_err c of
       Some err \<Rightarrow> Some (Inl err)
     | None \<Rightarrow>
         (case cr_request c of
            None \<Rightarrow> None
          | Some req \<Rightarrow>
              (case sr_Params req of
                 Some p \<Rightarrow> Some (Unmarshal rt p t)
               | None \<Rightarrow> Some (Unmarshal rt (RawJSON ''{}'') t))))"

text \<open>The package-level \<open>rpc.WriteError\<close>.\<close>

definition rpc_WriteError :: "nat \<Rightarrow> string \<Rightarrow> 'v response" where
  "rpc_WriteError st msg =
     \<lparr>resp_status = st, resp_contentType = ''text/plain; charset=utf-8'', resp_body = TextBody msg\<rparr>"

fun jval_MarshalErr :: "'v runtime \<Rightarrow> 'v jval \<Rightarrow> string option" where
  "jval_MarshalErr rt JNull = None"
| "jval_MarshalErr rt (JString s) = None"
| "jval_MarshalErr rt (JValue v) = MarshalErr rt v"

definition writeServerResponse :: "'v runtime \<Rightarrow> nat \<Rightarrow> 'v jval \<Rightarrow> 'v jval \<Rightarrow> 'v response" where
  "writeServerResponse rt st res_Result res_Error =
    (case (case jval_MarshalErr rt res_Result of
             None \<Rightarrow> jval_MarshalErr rt res_Error | Some e \<Rightarrow> Some e) of
       None \<Rightarrow> \<lparr>resp_status = st, resp_contentType = ''application/json; charset=utf-8'',
                resp_body = JSONBody res_Result res_Error\<rparr>
     | Some err \<Rightarrow> rpc_WriteError 400 err)"

definition WriteResponse :: "'v runtime \<Rightarrow> 'v \<Rightarrow> 'v response" where
  "WriteResponse rt reply = writeServerResponse rt 200 (JValue reply) JNull"

definition WriteError :: "'v runtime \<Rightarrow> nat \<Rightarrow> 'v goerror \<Rightarrow> 'v response" where
  "WriteError rt st err =
     writeServerResponse rt 400 JNull
       (case err of JSONError d \<Rightarrow> JValue d | ErrorString msg \<Rightarrow> JString msg)"

text \<open>The method name the codec reports for a request: \<open>NewRequest\<close>, then \<open>Method\<close>.\<close>

definition codecMethod :: "request \<Rightarrow> (string + string) option" where
  "codecMethod r = (case NewRequest r of None \<Rightarrow> None | Some (c, r') \<Rightarrow> Method c)"

section \<open>The dispatcher\<close>

text \<open>The only codec of the repository is the JSON one; the codec table maps lower-cased
  content types to it.\<close>

datatype codec = JSONCodec

record 'v Server =
  codecs :: "(string \<times> codec) list"
  services :: "'v serviceMap"
  interceptFunc :: "('v RequestInfo \<Rightarrow> request option) option"
  beforeFunc :: "('v RequestInfo \<Rightarrow> 'v RequestInfo) option"
  afterFunc :: "('v RequestInfo \<Rightarrow> unit) option"
  validateFunc :: "('v RequestInfo \<Rightarrow> 'v \<Rightarrow> 'v goerror option) option"
  allowedMethods :: "string list"

text \<open>
  What a call of \<open>ServeHTTP\<close> does, in order: the hooks it calls (with the \<open>RequestInfo\<close> they
  are given), the method it invokes (service, method, request, args), the header it sets and
  the response it writes. A hook that takes a pointer may change what it points to: the
  before hook gives back the \<open>RequestInfo\<close> as it leaves it, which is what the validate hook
  is then given. A call that panics writes nothing.
\<close>

datatype 'v event =
    Intercept "'v RequestInfo"
  | Before "'v RequestInfo"
  | Validate "'v RequestInfo" 'v
  | Invoke string string request "'v option"
  | SetHeader string string
  | Respond "'v response"
  | After "'v RequestInfo"

datatype 'v outcome = Panic | Returned "'v event list"

definition newRequestInfo :: "request \<Rightarrow> string \<Rightarrow> 'v RequestInfo" where
  "newRequestInfo r method =
     \<lparr>ri_Method = method, ri_Error = None, ri_Request = r, ri_StatusCode = 0\<rparr>"

text \<open>The method name taken from the path: \<open>None\<close> is a panic, \<open>Inl\<close> the message of the 404.\<close>

definition methodFromPath :: "'v Server \<Rightarrow> request \<Rightarrow> (string + string) option" where
  "methodFromPath s r =
    (if HasPrefix (r_Path r) ''/rpc/'' then
       (let mp = TrimPrefix (r_Path r) ''/rpc/'' in
        if mp \<noteq> [] then getNormalizedMethod (services s) mp else Some (Inr mp))
     else Some (Inr []))"

text \<open>The choice of the codec: \<open>Inl\<close> is the content type of the 415, \<open>Inr None\<close> the nil codec
  of an empty table. Where the source takes any codec of the table, the first is taken.\<close>

definition selectCodec :: "'v Server \<Rightarrow> request \<Rightarrow> string + codec option" where
  "selectCodec s r =
    (if r_Method r = ''GET'' then
       (if length (codecs s) = 1 then Inr (Some (snd (hd (codecs s))))
        else (case map_of (codecs s) ''application/json'' of
                Some jsonCodec \<Rightarrow> Inr (Some jsonCodec)
              | None \<Rightarrow> (case codecs s of [] \<Rightarrow> Inr None | c # _ \<Rightarrow> Inr (Some (snd c)))))
     else
       (let contentType = r_ContentType r;
            contentType = (case Index contentType (CHR '';'') of
                             Some idx \<Rightarrow> take idx contentType | None \<Rightarrow> contentType)
        in if contentType = [] \<and> length (codecs s) = 1 then Inr (Some (snd (hd (codecs s))))
           else (case map_of (codecs s) (ToLower contentType) of
                   None \<Rightarrow> Inl contentType
                 | Some c \<Rightarrow> Inr (Some c))))"

definition hasExportedFields :: "(string \<times> string) list \<Rightarrow> bool" where
  "hasExportedFields flds = list_ex (\<lambda>(fname, pkgPath). pkgPath = []) flds"

text \<open>The intercept hook: the events, and the request the call goes on with.\<close>

definition callIntercept :: "'v Server \<Rightarrow> request \<Rightarrow> string \<Rightarrow> 'v event list \<times> request" where
  "callIntercept s r method =
    (case interceptFunc s of
       None \<Rightarrow> ([], r)
     | Some f \<Rightarrow>
         ([Intercept (newRequestInfo r method)],
          (case f (newRequestInfo r method) of None \<Rightarrow> r | Some req \<Rightarrow> req)))"

text \<open>The before hook: the events, and the \<open>RequestInfo\<close> as the hook leaves it.\<close>

definition callBefore :: "'v Server \<Rightarrow> request \<Rightarrow> string \<Rightarrow> 'v event list \<times> 'v RequestInfo" where
  "callBefore s r method =
    (case beforeFunc s of
       None \<Rightarrow> ([], newRequestInfo r method)
     | Some f \<Rightarrow> ([Before (newRequestInfo r method)], f (newRequestInfo r method)))"

text \<open>The validate hook, called only for a method with args: the events and the error.\<close>

definition callValidate ::
  "'v Server \<Rightarrow> 'v serviceMethod \<Rightarrow> 'v RequestInfo \<Rightarrow> 'v \<Rightarrow> 'v event list \<times> 'v goerror option" where
  "callValidate s methodSpec requestInfo args =
    (case validateFunc s of
       Some f \<Rightarrow>
         if \<not> sm_noArgs methodSpec
         then ([Validate requestInfo args], f requestInfo args)
         else ([], None)
     | None \<Rightarrow> ([], None))"

text \<open>The after hook.\<close>

definition callAfter :: "'v Server \<Rightarrow> 'v RequestInfo \<Rightarrow> 'v event list" where
  "callAfter s info = (case afterFunc s of None \<Rightarrow> [] | Some f \<Rightarrow> [After info])"

text \<open>From the hooks to the end of \<open>ServeHTTP\<close>, for a resolved method and its args: the events,
  and the reply as the call leaves it.\<close>

definition serveCall ::
  "'v runtime \<Rightarrow> 'v Server \<Rightarrow> request \<Rightarrow> string \<Rightarrow> 'v service \<Rightarrow> 'v serviceMethod \<Rightarrow> 'v
     \<Rightarrow> 'v event list \<times> 'v" where
  "serveCall rt s r0 method serviceSpec methodSpec args =
    (let (ev1, r) = callIntercept s r0 method;
         (ev2, requestInfo) = callBefore s r method;
         reply0 = Zero rt (sm_replyType methodSpec);
         (ev3, errValue0) = callValidate s methodSpec requestInfo args;
         (ev4, errResult, reply) =
           (if errValue0 = None then
              (let callArgs = (if sm_noArgs methodSpec then None else Some args);
                   (e, rep) = m_Func (sm_method methodSpec) r callArgs reply0
               in ([Invoke (svc_name serviceSpec) (m_Name (sm_method methodSpec)) r callArgs],
                   e, rep))
            else ([], errValue0, reply0));
         statusCode = (if errResult = None then 200 else 400);
         ev5 = [SetHeader ''x-content-type-options'' ''nosniff''];
         ev6 = [Respond (case errResult of
                           None \<Rightarrow> WriteResponse rt reply
                         | Some e \<Rightarrow> WriteError rt statusCode e)];
         ev7 = callAfter s \<lparr>ri_Method = method, ri_Error = errResult,
                             ri_Request = r, ri_StatusCode = statusCode\<rparr>
     in (ev1 @ ev2 @ ev3 @ ev4 @ ev5 @ ev6 @ ev7, reply))"

text \<open>The decoding of the args: \<open>Inl\<close> ends the request (a panic or the 400 of a decode
  error), \<open>Inr\<close> is the args value the call goes on with. \<open>NumField\<close> panics on a type
  that is not a struct.\<close>

definition readArgs ::
  "'v runtime \<Rightarrow> codecRequest \<Rightarrow> 'v serviceMethod \<Rightarrow> 'v outcome + 'v" where
  "readArgs rt codecReq methodSpec =
    (if \<not> sm_noArgs methodSpec then
       (case ReadRequest rt codecReq (sm_argsType methodSpec) of
          None \<Rightarrow> Inl Panic
        | Some (Inr a) \<Rightarrow> Inr a
        | Some (Inl errRead) \<Rightarrow>
            (case sm_argsType methodSpec of
               TStruct n p flds \<Rightarrow>
                 if hasExportedFields flds
                 then Inl (Returned [Respond (WriteError rt 400 (ErrorString errRead))])
                 else Inr (Zero rt (sm_argsType methodSpec))
             | _ \<Rightarrow> Inl Panic))
     else Inr (Zero rt emptyStruct))"

text \<open>The method name when the path gave none: \<open>Inl\<close> ends the request.\<close>

definition methodFromCodec ::
  "'v runtime \<Rightarrow> 'v Server \<Rightarrow> codecRequest \<Rightarrow> 'v outcome + string" where
  "methodFromCodec rt s codecReq =
    (case Method codecReq of
       None \<Rightarrow> Inl Panic
     | Some (Inl errMethod) \<Rightarrow>
         Inl (Returned [Respond (WriteError rt 400 (ErrorString errMethod))])
     | Some (Inr method) \<Rightarrow>
         (case getNormalizedMethod (services s) method of
            None \<Rightarrow> Inl Panic
          | Some (Inr normalizedMethod) \<Rightarrow> Inr normalizedMethod
          | Some (Inl err) \<Rightarrow> Inl (Returned [Respond (WriteError rt 400 (ErrorString err))])))"

text \<open>\<open>ServeHTTP\<close> up to the lookup of the method: \<open>Inl\<close> ends the request, \<open>Inr\<close> is the codec
  request, the request as the codec left it, the method name and the descriptors found.\<close>

definition resolveCall ::
  "'v runtime \<Rightarrow> 'v Server \<Rightarrow> request
     \<Rightarrow> 'v outcome + (codecRequest \<times> request \<times> string \<times> 'v service \<times> 'v serviceMethod)" where
  "resolveCall rt s r =
    (if r_Method r \<notin> set (allowedMethods s) then
       Inl (Returned [Respond (rpc_WriteError 405
         (''rpc: only '' @ Join (allowedMethods s) '',''
            @ '' methods are allowed, received '' @ r_Method r))])
     else
     (case methodFromPath s r of
        None \<Rightarrow> Inl Panic
      | Some (Inl err) \<Rightarrow> Inl (Returned [Respond (rpc_WriteError 404 err)])
      | Some (Inr mfp) \<Rightarrow>
     (case selectCodec s r of
        Inl ctype \<Rightarrow>
          Inl (Returned [Respond (rpc_WriteError 415 (''rpc: unrecognized Content-Type: '' @ ctype))])
      | Inr None \<Rightarrow> Inl Panic
      | Inr (Some JSONCodec) \<Rightarrow>
     (case NewRequest r of
        None \<Rightarrow> Inl Panic
      | Some (codecReq, r1) \<Rightarrow>
     (case (if mfp \<noteq> [] then Inr mfp else methodFromCodec rt s codecReq) of
        Inl out \<Rightarrow> Inl out
      | Inr method \<Rightarrow>
     (case get (services s) method of
        Inl errGet \<Rightarrow> Inl (Returned [Respond (WriteError rt 400 (ErrorString errGet))])
      | Inr (serviceSpec, methodSpec) \<Rightarrow>
          Inr (codecReq, r1, method, serviceSpec, methodSpec)))))))"

definition ServeHTTP :: "'v runtime \<Rightarrow> 'v Server \<Rightarrow> request \<Rightarrow> 'v outcome" where
  "ServeHTTP rt s r =
    (case resolveCall rt s r of
       Inl out \<Rightarrow> out
     | Inr (codecReq, r1, method, serviceSpec, methodSpec) \<Rightarrow>
         (case readArgs rt codecReq methodSpec of
            Inl out \<Rightarrow> out
          | Inr args \<Rightarrow>
              Returned (fst (serveCall rt s r1 method serviceSpec methodSpec args))))"

section \<open>The example program\<close>

text \<open>The service of the example: \<open>HelloService\<close> with \<open>Say(r, *HelloArgs, *HelloReply)\<close> and
  \<open>NoArgs(r, *HelloReply)\<close>. A Go value is a string here: the args are the \<open>Who\<close> field, the
  reply is the \<open>Message\<close> field.\<close>

definition HelloArgs :: gotype where
  "HelloArgs = TStruct ''HelloArgs'' ''main'' [(''Who'', [])]"

definition HelloReply :: gotype where
  "HelloReply = TStruct ''HelloReply'' ''main'' [(''Message'', [])]"

definition HelloServiceType :: gotype where
  "HelloServiceType = TPtr (TStruct ''HelloService'' ''main'' [])"

definition Say :: "string gomethod" where
  "Say = \<lparr>m_Name = ''Say'', m_PkgPath = [],
          m_In = [HelloServiceType, httpReqType, TPtr HelloArgs, TPtr HelloReply],
          m_Out = [errorType],
          m_Func = (\<lambda>r args reply.
             (None, ''Hello, '' @ (case args of None \<Rightarrow> [] | Some who \<Rightarrow> who) @ ''!''))\<rparr>"

definition NoArgs :: "string gomethod" where
  "NoArgs = \<lparr>m_Name = ''NoArgs'', m_PkgPath = [],
             m_In = [HelloServiceType, httpReqType, TPtr HelloReply],
             m_Out = [errorType],
             m_Func = (\<lambda>r args reply. (None, ''Hello!''))\<rparr>"

definition HelloService :: "string receiver" where
  "HelloService = \<lparr>rcvr_TypeName = ''HelloService'', rcvr_Methods = [NoArgs, Say]\<rparr>"

text \<open>A JSON runtime for the example: the params of a query string decode to the \<open>who\<close>
  value, a raw body decodes to itself unless it is the text \<open>bad\<close>; every value encodes.\<close>

definition hello_rt :: "string runtime" where
  "hello_rt = \<lparr>Unmarshal = (\<lambda>p t. case p of
                    FormJSON form \<Rightarrow> Inr (Form_Get form ''who'')
                  | RawJSON raw \<Rightarrow> if raw = ''bad'' then Inl ''invalid character'' else Inr raw),
               Zero = (\<lambda>t. []),
               MarshalErr = (\<lambda>v. None)\<rparr>"

text \<open>The same runtime, except that the value \<open>NaN\<close> stands for a value \<open>json.Marshal\<close>
  rejects (a reply or payload that holds a floating-point NaN).\<close>

definition nan_rt :: "string runtime" where
  "nan_rt = hello_rt\<lparr>MarshalErr :=
     (\<lambda>v. if v = ''NaN'' then Some ''json: unsupported value: NaN'' else None)\<rparr>"

text \<open>\<open>NewServer\<close>, \<open>RegisterCodec\<close> and \<open>RegisterService\<close> as \<open>main\<close> calls them.\<close>

definition NewServer :: "'v Server" where
  "NewServer = \<lparr>codecs = [], services = None, interceptFunc = None, beforeFunc = None,
                afterFunc = None, validateFunc = None,
                allowedMethods = [''POST'', ''GET'', ''DELETE'', ''PUT'']\<rparr>"

definition RegisterCodec :: "'v Server \<Rightarrow> codec \<Rightarrow> string \<Rightarrow> 'v Server" where
  "RegisterCodec s c ctype = s\<lparr>codecs := AList.update (ToLower ctype) c (codecs s)\<rparr>"

definition RegisterService :: "'v Server \<Rightarrow> 'v receiver \<Rightarrow> string \<Rightarrow> regerror option \<times> 'v Server" where
  "RegisterService s rcvr name =
     (let (err, m) = register (services s) rcvr name in (err, s\<lparr>services := m\<rparr>))"

definition hello_server :: "string Server" where
  "hello_server =
     snd (RegisterService (RegisterCodec NewServer JSONCodec ''application/json'') HelloService [])"

definition get_request :: "string \<Rightarrow> (string \<times> string list) list \<Rightarrow> request" where
  "get_request path form =
     \<lparr>r_Method = ''GET'', r_Path = path, r_ContentType = [], r_ParseFormErr = None,
      r_Form = form, r_Body = Inl ''EOF''\<rparr>"

definition post_request :: "string \<Rightarrow> string \<Rightarrow> string \<Rightarrow> request" where
  "post_request path method ps =
     \<lparr>r_Method = ''POST'', r_Path = path, r_ContentType = ''application/json'',
      r_ParseFormErr = None, r_Form = [],
      r_Body = Inr \<lparr>sr_Method = method, sr_Params = Some (RawJSON ps)\<rparr>\<rparr>"

text \<open>A second service, for the cases the first does not show: \<open>Ping\<close> takes args whose
  struct has no exported field, \<open>Fail\<close> returns an error.\<close>

definition PingArgs :: gotype where
  "PingArgs = TStruct ''PingArgs'' ''main'' [(''seq'', ''main'')]"

definition PingServiceType :: gotype where
  "PingServiceType = TPtr (TStruct ''PingService'' ''main'' [])"

definition Ping :: "string gomethod" where
  "Ping = \<lparr>m_Name = ''Ping'', m_PkgPath = [],
           m_In = [PingServiceType, httpReqType, TPtr PingArgs, TPtr HelloReply],
           m_Out = [errorType],
           m_Func = (\<lambda>r args reply. (None, ''pong''))\<rparr>"

definition Fail :: "string gomethod" where
  "Fail = \<lparr>m_Name = ''Fail'', m_PkgPath = [],
           m_In = [PingServiceType, httpReqType, TPtr HelloArgs, TPtr HelloReply],
           m_Out = [errorType],
           m_Func = (\<lambda>r args reply. (Some (ErrorString ''boom''), reply))\<rparr>"

text \<open>\<open>Reject\<close> takes the same args as \<open>Ping\<close> and returns an error; \<open>Nan\<close> takes no args and
  fills the reply with the value that does not encode.\<close>

definition Reject :: "string gomethod" where
  "Reject = \<lparr>m_Name = ''Reject'', m_PkgPath = [],
             m_In = [PingServiceType, httpReqType, TPtr PingArgs, TPtr HelloReply],
             m_Out = [errorType],
             m_Func = (\<lambda>r args reply. (Some (ErrorString ''rejected''), reply))\<rparr>"

definition Nan :: "string gomethod" where
  "Nan = \<lparr>m_Name = ''Nan'', m_PkgPath = [],
          m_In = [PingServiceType, httpReqType, TPtr HelloReply],
          m_Out = [errorType],
          m_Func = (\<lambda>r args reply. (None, ''NaN''))\<rparr>"

definition PingService :: "string receiver" where
  "PingService = \<lparr>rcvr_TypeName = ''PingService'', rcvr_Methods = [Fail, Nan, Ping, Reject]\<rparr>"

text \<open>The example server with both services, an after hook, and a validate hook that
  rejects the args \<open>invalid\<close>.\<close>

definition rejectInvalid :: "string RequestInfo \<Rightarrow> string \<Rightarrow> string goerror option" where
  "rejectInvalid info args =
     (if args = ''invalid'' then Some (ErrorString ''invalid args'') else None)"

definition hooked_server :: "string Server" where
  "hooked_server =
     (snd (RegisterService hello_server PingService []))
       \<lparr>afterFunc := Some (\<lambda>info. ()), validateFunc := Some rejectInvalid\<rparr>"




subsection \<open>Reading the events\<close>

fun afterCalls :: "'v event list \<Rightarrow> 'v RequestInfo list" where
  "afterCalls [] = []"
| "afterCalls (After info # evs) = info # afterCalls evs"
| "afterCalls (ev # evs) = afterCalls evs"

fun invokeCalls :: "'v event list \<Rightarrow> (string \<times> string) list" where
  "invokeCalls [] = []"
| "invokeCalls (Invoke sname mname r a # evs) = (sname, mname) # invokeCalls evs"
| "invokeCalls (ev # evs) = invokeCalls evs"

fun responses :: "'v event list \<Rightarrow> 'v response list" where
  "responses [] = []"
| "responses (Respond resp # evs) = resp # responses evs"
| "responses (ev # evs) = responses evs"

fun events_of :: "'v outcome \<Rightarrow> 'v event list" where
  "events_of Panic = []"
| "events_of (Returned evs) = evs"

text \<open>A response with a JSON body \<open>{"result": res, "error": err}\<close>.\<close>

definition json_response :: "nat \<Rightarrow> 'v jval \<Rightarrow> 'v jval \<Rightarrow> 'v response" where
  "json_response st res err =
     \<lparr>resp_status = st, resp_contentType = ''application/json; charset=utf-8'',
      resp_body = JSONBody res err\<rparr>"

section \<open>The specification's words\<close>

text \<open>The name a service is registered under: the explicit name when it is not empty, the
  receiver's type name otherwise.\<close>

definition serviceName :: "'v receiver \<Rightarrow> string \<Rightarrow> string" where
  "serviceName rcvr name = (if name \<noteq> [] then name else rcvr_TypeName rcvr)"

text \<open>The qualification rules as the specification lists them: an exported name, three
  parameters (request, args, reply) or two (request, reply) after the receiver, the first
  being \<open>*http.Request\<close>, args and reply pointers to exported or builtin types, and one result,
  the error.\<close>

definition spec_qualifies :: "'v gomethod \<Rightarrow> bool" where
  "spec_qualifies method =
    (isExported (m_Name method) \<and> m_PkgPath method = [] \<and>
     (case m_In method of
        [rcv, req, args, reply] \<Rightarrow>
          req = httpReqType \<and> isPtr args \<and> isExportedOrBuiltin args
          \<and> isPtr reply \<and> isExportedOrBuiltin reply
      | [rcv, req, reply] \<Rightarrow> req = httpReqType \<and> isPtr reply \<and> isExportedOrBuiltin reply
      | _ \<Rightarrow> False) \<and>
     m_Out method = [errorType])"

text \<open>Capitalising only the first letter of a segment, the rest unchanged.\<close>

definition capFirst :: "string \<Rightarrow> string" where
  "capFirst s = (case s of [] \<Rightarrow> [] | c # cs \<Rightarrow> toUpper_char c # cs)"

text \<open>The first source that is not empty.\<close>

definition first_nonempty :: "string list \<Rightarrow> string" where
  "first_nonempty xs = (case filter (\<lambda>x. x \<noteq> []) xs of [] \<Rightarrow> [] | x # _ \<Rightarrow> x)"

text \<open>The precedence of the specification: the reserved path prefix, the last path segment,
  the \<open>method\<close> form field, the \<open>method\<close> field of the decoded body.\<close>

definition spec_methodName :: "request \<Rightarrow> string" where
  "spec_methodName r =
     first_nonempty [methodFromPrefix r, methodFromLastPart r, Form_Get (r_Form r) ''method'',
                     (case r_Body r of Inr req \<Rightarrow> sr_Method req | Inl err \<Rightarrow> [])]"

text \<open>Two registries of the example service under explicit names.\<close>

definition dash_registry :: "string serviceMap" where
  "dash_registry = snd (register None HelloService ''My-Svc'')"

definition helloservice_registry :: "string serviceMap" where
  "helloservice_registry = snd (register None HelloService ''Helloservice'')"

section \<open>Registration\<close>

lemma length_3: "length xs = 3 \<longleftrightarrow> (\<exists>a b c. xs = [a, b, c])"
  by (cases xs; simp; cases "tl xs"; simp; cases "tl (tl xs)"; auto)

lemma length_4: "length xs = 4 \<longleftrightarrow> (\<exists>a b c d. xs = [a, b, c, d])"
  by (cases xs; simp; cases "tl xs"; simp; cases "tl (tl xs)"; simp; cases "tl (tl (tl xs))"; auto)

lemma single_iff: "xs = [e] \<longleftrightarrow> length xs = 1 \<and> xs ! 0 = e"
  by (cases xs) auto

text \<open>The loop body keeps a method exactly when the rules of the specification hold.\<close>

lemma method_spec_qualifies: "method_spec method \<noteq> None \<longleftrightarrow> spec_qualifies method"
proof (cases "length (m_In method) = 4")
  case True
  then obtain a b c d where "m_In method = [a, b, c, d]" by (auto simp: length_4)
  then show ?thesis
    by (auto simp: method_spec_def spec_qualifies_def Let_def single_iff)
next
  case False
  note n4 = this
  show ?thesis
  proof (cases "length (m_In method) = 3")
    case True
    then obtain a b c where "m_In method = [a, b, c]" by (auto simp: length_3)
    then show ?thesis
      by (auto simp: method_spec_def spec_qualifies_def Let_def single_iff)
  next
    case False
    with n4 have "method_spec method = None" by (simp add: method_spec_def)
    moreover have "\<not> spec_qualifies method"
      using n4 False by (auto simp: spec_qualifies_def split: list.splits)
    ultimately show ?thesis by simp
  qed
qed

lemma setup_methods_none:
  "\<forall>method \<in> set ms. method_spec method = None \<Longrightarrow> setup_methods ms acc = acc"
  by (induction ms arbitrary: acc) auto

text \<open>\<open>register\<close> by the order of its checks.\<close>

lemma register_cases:
  "register m rcvr name =
    (if name = [] \<and> \<not> isExported (rcvr_TypeName rcvr)
       then (Some (NotExported (rcvr_TypeName rcvr)), m)
     else if map_of (services_of m) (serviceName rcvr name) \<noteq> None
       then (Some (AlreadyDefined (serviceName rcvr name)), m)
     else if setup_methods (rcvr_Methods rcvr) [] = []
       then (Some (NoSuitableMethods (serviceName rcvr name)), Some (services_of m))
     else (None, Some (AList.update (serviceName rcvr name)
             \<lparr>svc_name = serviceName rcvr name, svc_rcvr = rcvr,
              svc_methods = setup_methods (rcvr_Methods rcvr) []\<rparr> (services_of m))))"
  by (cases m) (auto simp: register_def serviceName_def services_of_def Let_def)

lemma isExported_lower: "\<not> isExported ''hello''" "\<not> isExported ''helloService''"
  by (simp_all add: isExported_def IsUpper_def upper_letters_def)

lemma isExported_Hello: "isExported ''HelloService''"
  by (simp add: isExported_def IsUpper_def upper_letters_def)

lemma HelloService_methods: "setup_methods (rcvr_Methods HelloService) [] \<noteq> []"
  by (simp add: HelloService_def NoArgs_def Say_def method_spec_def isExported_def IsUpper_def
      upper_letters_def httpReqType_def HelloReply_def HelloArgs_def errorType_def)

text \<open>
  C4, as the specification states it, fails: the check of the name is made only when no
  explicit name is given. Registering \<open>HelloService\<close> under the explicit name \<open>hello\<close>, which
  does not start with an upper-case letter, returns no error.
\<close>

theorem register_explicit_lowercase_counterexample:
  "\<not> isExported (serviceName HelloService ''hello'')
     \<and> fst (register None HelloService ''hello'') = None"
  using HelloService_methods
  by (simp add: register_cases serviceName_def isExported_lower services_of_def)

text \<open>
  C4, amended: \<open>register\<close> fails with the name-not-exported error exactly when no explicit
  name is given and the receiver's type name does not start with an upper-case letter; the
  error names that type. An explicit name is not checked.
\<close>

theorem register_name_not_exported:
  "fst (register m rcvr name) = Some (NotExported n) \<longleftrightarrow>
     name = [] \<and> \<not> isExported (rcvr_TypeName rcvr) \<and> n = rcvr_TypeName rcvr"
  by (auto simp: register_cases)

theorem register_name_not_exported_witness:
  "fst (register None (HelloService\<lparr>rcvr_TypeName := ''helloService''\<rparr>) [])
     = Some (NotExported ''helloService'')"
  using register_name_not_exported
    [of None "HelloService\<lparr>rcvr_TypeName := ''helloService''\<rparr>" "[]" "''helloService''"]
  by (simp add: isExported_lower)

lemma update_nonempty: "AList.update k v al \<noteq> []"
  by (cases al) auto

lemma setup_methods_nonempty: "acc \<noteq> [] \<Longrightarrow> setup_methods ms acc \<noteq> []"
  by (induction ms arbitrary: acc) (auto simp: update_nonempty split: option.splits)

lemma setup_methods_empty_iff:
  "setup_methods ms [] = [] \<longleftrightarrow> list_all (\<lambda>method. \<not> spec_qualifies method) ms"
proof (induction ms)
  case Nil
  then show ?case by simp
next
  case (Cons a ms)
  show ?case
  proof (cases "method_spec a")
    case None
    with Cons method_spec_qualifies [of a] show ?thesis by simp
  next
    case (Some sm)
    then have "setup_methods (a # ms) [] \<noteq> []"
      by (simp add: setup_methods_nonempty update_nonempty)
    moreover have "spec_qualifies a" using Some method_spec_qualifies [of a] by simp
    ultimately show ?thesis by simp
  qed
qed

text \<open>
  C8, as the specification states it, fails where two checks fail at once: the checks are
  made in order and the first that fails gives the error. A receiver without any method,
  registered under a name that is already present, gets the duplicate-service error, not
  the no-suitable-methods error.
\<close>

theorem register_no_methods_duplicate_counterexample:
  "rcvr_Methods (HelloService\<lparr>rcvr_Methods := []\<rparr>) = []
   \<and> fst (register (snd (register None HelloService [])) (HelloService\<lparr>rcvr_Methods := []\<rparr>) [])
       = Some (AlreadyDefined ''HelloService'')"
  by code_simp

text \<open>
  C8, amended: \<open>register\<close> makes its checks in order and fails with the error of the first
  that fails: the name-not-exported error when no explicit name is given and the type name
  does not start with an upper-case letter; else the duplicate-service error when a service
  of the resolved name is already present; else the no-suitable-methods error when no method
  of the receiver satisfies the qualification rules (exported name, the two- or
  three-parameter shape with \<open>*http.Request\<close> first, pointer args and reply to exported or
  builtin types, one result, the error). Otherwise it succeeds.
\<close>

theorem register_first_failing_check:
  "fst (register m rcvr name) =
     (if name = [] \<and> \<not> isExported (rcvr_TypeName rcvr)
        then Some (NotExported (rcvr_TypeName rcvr))
      else if map_of (services_of m) (serviceName rcvr name) \<noteq> None
        then Some (AlreadyDefined (serviceName rcvr name))
      else if list_all (\<lambda>method. \<not> spec_qualifies method) (rcvr_Methods rcvr)
        then Some (NoSuitableMethods (serviceName rcvr name))
      else None)"
  by (simp add: register_cases setup_methods_empty_iff)

theorem register_first_failing_check_witness:
  "fst (register (snd (register None HelloService [])) HelloService [])
     = Some (AlreadyDefined ''HelloService'')
   \<and> fst (register None (HelloService\<lparr>rcvr_Methods := []\<rparr>) [])
     = Some (NoSuitableMethods ''HelloService'')
   \<and> fst (register None HelloService []) = None"
proof -
  have e: "isExported (rcvr_TypeName HelloService)"
    by (simp add: HelloService_def isExported_Hello)
  have present: "map_of (services_of (snd (register None HelloService []))) ''HelloService'' \<noteq> None"
    using HelloService_methods e
    by (simp add: register_cases serviceName_def services_of_def HelloService_def)
  have n: "serviceName HelloService [] = ''HelloService''"
    by (simp add: serviceName_def HelloService_def)
  have q: "\<not> list_all (\<lambda>method. \<not> spec_qualifies method) (rcvr_Methods HelloService)"
    using HelloService_methods by (simp add: setup_methods_empty_iff)
  show ?thesis
    using register_first_failing_check [of "snd (register None HelloService [])" HelloService "[]"]
          register_first_failing_check [of None "HelloService\<lparr>rcvr_Methods := []\<rparr>" "[]"]
          register_first_failing_check [of None HelloService "[]"]
          e present n q
    by (simp add: serviceName_def HelloService_def services_of_def)
qed

text \<open>
  C10: a call of \<open>register\<close> that returns an error leaves the entries of the registry as
  they were: none is added, removed or changed. (A registry that was still the nil map may
  have become the empty map.)
\<close>

theorem register_failure_atomic:
  "fst (register m rcvr name) \<noteq> None \<Longrightarrow>
     services_of (snd (register m rcvr name)) = services_of m"
  by (auto simp: register_cases services_of_def split: if_splits)

theorem register_failure_atomic_witness:
  "fst (register (snd (register None HelloService [])) HelloService []) \<noteq> None
   \<and> services_of (snd (register (snd (register None HelloService [])) HelloService []))
       = services_of (snd (register None HelloService []))"
proof -
  have e: "isExported (rcvr_TypeName HelloService)"
    by (simp add: HelloService_def isExported_Hello)
  have h: "fst (register (snd (register None HelloService [])) HelloService []) \<noteq> None"
    using HelloService_methods e
    by (simp add: register_cases serviceName_def services_of_def HelloService_def)
  show ?thesis
    using h register_failure_atomic [OF h] by simp
qed

section \<open>Lookup\<close>

lemma Split_no_sep: "sep \<notin> set a \<Longrightarrow> Split sep a = [a]"
  by (induction a) auto

lemma Split_append: "sep \<notin> set a \<Longrightarrow> Split sep (a @ sep # b) = a # Split sep b"
  by (induction a) auto

lemma Title_from_id:
  "\<not> isSeparator prev \<Longrightarrow> list_all (\<lambda>c. \<not> isSeparator c) s \<Longrightarrow> Title_from prev s = s"
  by (induction s arbitrary: prev) auto

lemma isSeparator_space: "isSeparator (CHR '' '')" "isSeparator (CHR ''.'')"
  by (simp_all add: isSeparator_def digit_chars_def lower_letters_def upper_letters_def)

text \<open>On a segment without separators \<open>strings.Title\<close> capitalises the first letter only.\<close>

lemma Title_capFirst: "list_all (\<lambda>c. \<not> isSeparator c) s \<Longrightarrow> Title s = capFirst s"
  by (cases s) (auto simp: Title_def capFirst_def isSeparator_space Title_from_id)

lemma no_dot: "list_all (\<lambda>c. \<not> isSeparator c) s \<Longrightarrow> CHR ''.'' \<notin> set s"
  using isSeparator_space(2) by (auto simp: list_all_iff)

text \<open>
  C2, as the specification states it, fails: \<open>get\<close> applies \<open>strings.Title\<close> to each segment,
  which capitalises the first letter of every word of the segment, not of the segment
  alone. With a service registered as \<open>My-Svc\<close>, the name \<open>my-svc.say\<close> resolves, although
  capitalising the first letter of \<open>my-svc\<close> gives \<open>My-svc\<close>, which is not registered: an
  inner letter was changed.
\<close>

theorem get_inner_letter_counterexample:
  "capFirst ''my-svc'' = ''My-svc''
   \<and> map_of (services_of dash_registry) (capFirst ''my-svc'') = None
   \<and> Title ''my-svc'' = ''My-Svc''
   \<and> \<not> isl (get dash_registry ''my-svc.say'')"
  by code_simp

text \<open>
  C2, amended: for a dotted name whose two segments are made of ASCII letters, digits and
  underscores only, \<open>get\<close> capitalises the first letter of each segment and leaves the rest
  unchanged: it returns the descriptors registered under the capitalised service and method
  names, and fails with the lookup error naming the capitalised segment when there is none.
  (In a segment with other characters, every letter that follows one is capitalised too.)
\<close>

theorem get_capitalizes_first_letters:
  assumes "list_all (\<lambda>c. \<not> isSeparator c) a" and "list_all (\<lambda>c. \<not> isSeparator c) b"
  shows "get m (a @ ''.'' @ b) =
    (case map_of (services_of m) (capFirst a) of
       None \<Rightarrow> Inl (''rpc: can't find service '' @ capFirst a)
     | Some service \<Rightarrow>
         (case map_of (svc_methods service) (capFirst b) of
            None \<Rightarrow> Inl (''rpc: can't find method '' @ capFirst b)
          | Some serviceMethod \<Rightarrow> Inr (service, serviceMethod)))"
proof -
  have "Split (CHR ''.'') (a @ ''.'' @ b) = [a, b]"
    using assms by (simp add: Split_append Split_no_sep no_dot)
  then show ?thesis
    using assms by (simp add: get_def Title_capFirst Let_def)
qed

theorem get_capitalizes_first_letters_witness:
  "list_all (\<lambda>c. \<not> isSeparator c) ''helloservice'' \<and> list_all (\<lambda>c. \<not> isSeparator c) ''say''
   \<and> (case get helloservice_registry ''helloservice.say'' of
         Inl err \<Rightarrow> False
       | Inr (service, serviceMethod) \<Rightarrow>
           svc_name service = ''Helloservice'' \<and> m_Name (sm_method serviceMethod) = ''Say'')"
proof -
  have a: "list_all (\<lambda>c. \<not> isSeparator c) ''helloservice''"
    by (simp add: isSeparator_def digit_chars_def lower_letters_def upper_letters_def)
  have b: "list_all (\<lambda>c. \<not> isSeparator c) ''say''"
    by (simp add: isSeparator_def digit_chars_def lower_letters_def upper_letters_def)
  have s: "map_of (services_of helloservice_registry) (capFirst ''helloservice'')
             = Some \<lparr>svc_name = ''Helloservice'', svc_rcvr = HelloService,
                     svc_methods = setup_methods (rcvr_Methods HelloService) []\<rparr>"
    using HelloService_methods
    by (simp add: helloservice_registry_def register_cases serviceName_def services_of_def
        capFirst_def toUpper_char_def lower_letters_def upper_letters_def)
  have m: "map_option (\<lambda>sm. m_Name (sm_method sm))
             (map_of (setup_methods (rcvr_Methods HelloService) []) (capFirst ''say'')) = Some ''Say''"
    by code_simp
  show ?thesis
    using a b s m get_capitalizes_first_letters [OF a b, of helloservice_registry]
    by (auto split: option.splits)
qed

section \<open>The method name of the codec\<close>

lemma extract_capitalize: "extractMethodFromURL r = capitalizeMethod (rawMethodFromURL r)"
  by (auto simp: extractMethodFromURL_def capitalizeMethod_def Let_def)

lemma raw_first_nonempty:
  "rawMethodFromURL r =
     first_nonempty [methodFromPrefix r, methodFromLastPart r, Form_Get (r_Form r) ''method'']"
  by (simp add: rawMethodFromURL_def first_nonempty_def Let_def)

text \<open>
  C1, as the specification states it, fails: for a verb other than GET the \<open>method\<close> field
  of the decoded body comes first, not last. A POST to \<open>/rpc\<close> with the body method
  \<open>helloservice.say\<close> has no path-supplied name and a last path segment \<open>rpc\<close>, which the
  stated precedence would choose; the codec reports \<open>helloservice.say\<close>.
\<close>

theorem codec_method_body_first_counterexample:
  "methodFromPath hello_server (post_request ''/rpc'' ''helloservice.say'' ''{}'') = Some (Inr [])
   \<and> spec_methodName (post_request ''/rpc'' ''helloservice.say'' ''{}'') = ''rpc''
   \<and> codecMethod (post_request ''/rpc'' ''helloservice.say'' ''{}'') = Some (Inr ''helloservice.say'')"
  by code_simp

text \<open>
  C1, amended: for a request whose form parses (a \<open>ParseForm\<close> error is what the codec
  reports otherwise), the codec takes a name from the URL by the precedence reserved \<open>/rpc/\<close>
  prefix, last non-empty path segment, \<open>method\<close> query/form field (the first that is not
  empty), with the first letter of each segment of a two-segment name capitalised (a
  two-segment name with an empty segment is left aside). For GET that name is the method
  name, and its absence is the error "method name missing"; the body is not read. For every
  other verb the \<open>method\<close> field of the decoded body is the method name when the body decodes
  and the field is not empty, and the name from the URL is used otherwise; when there is
  neither, the decoding error is reported.
\<close>

theorem codec_method_precedence:
  assumes "r_ParseFormErr r = None"
    and "capitalizeMethod (first_nonempty
           [methodFromPrefix r, methodFromLastPart r, Form_Get (r_Form r) ''method'']) = Some u"
  shows "(r_Method r = ''GET'' \<longrightarrow>
            codecMethod r = Some (if u = [] then Inl ''rpc: method name missing'' else Inr u))
       \<and> (r_Method r \<noteq> ''GET'' \<longrightarrow>
            codecMethod r = Some (case r_Body r of
               Inr req \<Rightarrow> Inr (if sr_Method req \<noteq> [] then sr_Method req else u)
             | Inl err \<Rightarrow> if u \<noteq> [] then Inr u else Inl err))"
  using assms
  by (auto simp: codecMethod_def NewRequest_def extract_capitalize raw_first_nonempty
      newGetCodecRequest_def newPostCodecRequest_def Method_def
      split: sum.splits prod.splits)

theorem codec_method_precedence_witness:
  "codecMethod (get_request ''/'' [(''method'', [''helloservice.say''])])
     = Some (Inr ''Helloservice.Say'')
   \<and> codecMethod (post_request ''/rpc'' [] ''{}'') = Some (Inr ''rpc'')"
proof -
  have g: "capitalizeMethod (first_nonempty
       [methodFromPrefix (get_request ''/'' [(''method'', [''helloservice.say''])]),
        methodFromLastPart (get_request ''/'' [(''method'', [''helloservice.say''])]),
        Form_Get (r_Form (get_request ''/'' [(''method'', [''helloservice.say''])])) ''method''])
     = Some ''Helloservice.Say''"
    by code_simp
  have p: "capitalizeMethod (first_nonempty
       [methodFromPrefix (post_request ''/rpc'' [] ''{}''),
        methodFromLastPart (post_request ''/rpc'' [] ''{}''),
        Form_Get (r_Form (post_request ''/rpc'' [] ''{}'')) ''method''])
     = Some ''rpc''"
    by code_simp
  have g0: "r_ParseFormErr (get_request ''/'' [(''method'', [''helloservice.say''])]) = None"
    by (simp add: get_request_def)
  have p0: "r_ParseFormErr (post_request ''/rpc'' [] ''{}'') = None"
    by (simp add: post_request_def)
  show ?thesis
    using codec_method_precedence [OF g0 g] codec_method_precedence [OF p0 p]
    by (simp add: get_request_def post_request_def)
qed

section \<open>The responses of the codec\<close>

lemma WriteError_status: "resp_status (WriteError rt st err) = 400"
  by (auto simp: WriteError_def writeServerResponse_def rpc_WriteError_def split: option.splits)

lemma WriteError_string: "WriteError rt st (ErrorString msg) = json_response 400 JNull (JString msg)"
  by (simp add: WriteError_def writeServerResponse_def json_response_def)

text \<open>
  C9, as the specification states it, fails: the response is marshalled first, and when
  \<open>json.Marshal\<close> rejects it nothing of the JSON form is written. For a reply that does not
  encode, \<open>WriteResponse\<close> writes the marshalling error as plain text with status 400.
\<close>

theorem write_response_marshal_failure_counterexample:
  "WriteResponse nan_rt ''NaN'' = rpc_WriteError 400 ''json: unsupported value: NaN''
   \<and> resp_status (WriteResponse nan_rt ''NaN'') \<noteq> 200
   \<and> resp_body (WriteError nan_rt 500 (JSONError ''NaN'')) \<noteq> JSONBody JNull (JValue ''NaN'')"
  by (simp add: WriteResponse_def WriteError_def writeServerResponse_def rpc_WriteError_def
      nan_rt_def hello_rt_def)

text \<open>
  C9, amended: when \<open>json.Marshal\<close> encodes the response, \<open>WriteResponse\<close> writes the body
  \<open>{"result": reply, "error": null}\<close> with status 200, and \<open>WriteError\<close> writes
  \<open>{"result": null, "error": value}\<close>, where the value is the \<open>Data\<close> payload as it is when the
  error is the codec's \<open>Error\<close>, and the message of the error otherwise (a message always
  encodes). When \<open>json.Marshal\<close> fails, both write its error as plain text. The status of
  \<open>WriteError\<close> is 400 in every case, whatever status it is passed.
\<close>

theorem codec_write_response_and_error:
  "(MarshalErr rt reply = None \<longrightarrow>
      WriteResponse rt reply = json_response 200 (JValue reply) JNull)
   \<and> resp_status (WriteError rt st err) = 400
   \<and> WriteError rt st (ErrorString msg) = json_response 400 JNull (JString msg)
   \<and> (MarshalErr rt d = None \<longrightarrow>
        WriteError rt st (JSONError d) = json_response 400 JNull (JValue d))
   \<and> (MarshalErr rt reply = Some e \<longrightarrow> WriteResponse rt reply = rpc_WriteError 400 e)
   \<and> (MarshalErr rt d = Some e \<longrightarrow> WriteError rt st (JSONError d) = rpc_WriteError 400 e)"
  by (auto simp: WriteResponse_def WriteError_def writeServerResponse_def json_response_def
      rpc_WriteError_def split: option.splits goerror.splits)

theorem codec_write_response_and_error_witness:
  "WriteResponse nan_rt ''Hello, World!'' = json_response 200 (JValue ''Hello, World!'') JNull
   \<and> WriteError nan_rt 500 (JSONError ''payload'') = json_response 400 JNull (JValue ''payload'')
   \<and> WriteError nan_rt 500 (ErrorString ''boom'') = json_response 400 JNull (JString ''boom'')
   \<and> WriteError nan_rt 500 (JSONError ''NaN'') = rpc_WriteError 400 ''json: unsupported value: NaN''"
  using codec_write_response_and_error
          [of nan_rt "''Hello, World!''" 500 "ErrorString ''boom''" "''boom''" "''payload''"
              "''json: unsupported value: NaN''"]
        codec_write_response_and_error
          [of nan_rt "''NaN''" 500 "ErrorString ''boom''" "''boom''" "''NaN''"
              "''json: unsupported value: NaN''"]
  by (simp add: nan_rt_def hello_rt_def)

section \<open>Dispatch\<close>

lemma methodFromPath_miss:
  "r_Path r = ''/rpc/'' @ name \<Longrightarrow> name \<noteq> [] \<Longrightarrow>
     methodFromPath s r = getNormalizedMethod (services s) name"
  by (simp add: methodFromPath_def HasPrefix_def TrimPrefix_def)

lemma getNormalizedMethod_err:
  "getNormalizedMethod m name = Some (Inl err) \<Longrightarrow> err = ''rpc: method not found: '' @ name"
  by (auto simp: getNormalizedMethod_def split: if_splits option.splits)


text \<open>
  Where the lookup of a name returns its error, for an allowed verb: a request that supplies
  the name in the path \<open>/rpc/<name>\<close> is answered 404 with the plain text of the error, and
  a request without a path-supplied name, for which the codec reports that name, is answered
  400 with the error in the \<open>error\<close> field of the JSON body. The text is
  \<open>rpc: method not found:\<close> followed by the name.
\<close>

lemma lookup_miss_response:
  assumes "r_Method r \<in> set (allowedMethods s)"
      and "getNormalizedMethod (services s) name = Some (Inl err)"
  shows "(r_Path r = ''/rpc/'' @ name \<and> name \<noteq> [] \<longrightarrow>
            ServeHTTP rt s r = Returned [Respond
              \<lparr>resp_status = 404, resp_contentType = ''text/plain; charset=utf-8'',
               resp_body = TextBody (''rpc: method not found: '' @ name)\<rparr>])
       \<and> (methodFromPath s r = Some (Inr []) \<and> selectCodec s r = Inr (Some c)
            \<and> codecMethod r = Some (Inr name) \<longrightarrow>
            ServeHTTP rt s r = Returned [Respond
              \<lparr>resp_status = 400, resp_contentType = ''application/json; charset=utf-8'',
               resp_body = JSONBody JNull (JString (''rpc: method not found: '' @ name))\<rparr>])"
proof -
  have e: "err = ''rpc: method not found: '' @ name"
    using assms(2) by (rule getNormalizedMethod_err)
  have 1: "ServeHTTP rt s r = Returned [Respond (rpc_WriteError 404 err)]"
    if "r_Path r = ''/rpc/'' @ name" "name \<noteq> []"
    using assms that by (simp add: ServeHTTP_def resolveCall_def methodFromPath_miss)
  have 2: "ServeHTTP rt s r = Returned [Respond (json_response 400 JNull (JString err))]"
    if "methodFromPath s r = Some (Inr [])" "selectCodec s r = Inr (Some c)"
       "codecMethod r = Some (Inr name)"
    using assms that
    by (cases c)
       (auto simp: ServeHTTP_def resolveCall_def codecMethod_def methodFromCodec_def
          WriteError_string split: option.splits)
  show ?thesis using 1 2 e by (simp add: rpc_WriteError_def json_response_def)
qed

text \<open>
  C3: the claim fails on a name with an empty segment. The lookup of \<open>.say\<close> and of
  \<open>helloservice.\<close> misses (\<open>get\<close> returns its error), but \<open>getNormalizedMethod\<close> then calls
  \<open>capitalizeMethod\<close>, which slices the first byte off the empty segment and panics: a GET of
  \<open>/rpc/.say\<close> is not answered 404 and a POST with the body method \<open>helloservice.\<close> is not
  answered 400; nothing is written.
\<close>

theorem lookup_miss_empty_segment_panics:
  "isl (get (services hello_server) ''.say'')
   \<and> ServeHTTP hello_rt hello_server (get_request ''/rpc/.say'' []) = Panic
   \<and> isl (get (services hello_server) ''helloservice.'')
   \<and> ServeHTTP hello_rt hello_server (post_request ''/rpc'' ''helloservice.'' ''{}'') = Panic"
  by code_simp





lemma callIntercept_events:
  "callIntercept s r method = (ev, r') \<Longrightarrow>
     invokeCalls ev = [] \<and> afterCalls ev = [] \<and> responses ev = []"
  by (auto simp: callIntercept_def split: option.splits)

lemma callBefore_events:
  "callBefore s r method = (ev, i) \<Longrightarrow>
     invokeCalls ev = [] \<and> afterCalls ev = [] \<and> responses ev = []"
  by (auto simp: callBefore_def split: option.splits)

lemma callValidate_events:
  "callValidate s ms i a = (ev, e) \<Longrightarrow>
     invokeCalls ev = [] \<and> afterCalls ev = [] \<and> responses ev = []"
  by (auto simp: callValidate_def split: option.splits if_splits)


lemma afterCalls_append: "afterCalls (xs @ ys) = afterCalls xs @ afterCalls ys"
  by (induction xs rule: afterCalls.induct) auto

lemma responses_append: "responses (xs @ ys) = responses xs @ responses ys"
  by (induction xs rule: responses.induct) auto

lemma invokeCalls_callAfter: "invokeCalls (callAfter s info) = []"
  by (simp add: callAfter_def split: option.splits)



text \<open>For a request that reaches the call stage, a registered after hook is called once, as
  the last step, right after the one response; it is given the resolved method name, the
  error of the call and the status 200 or 400 that goes with it.\<close>

lemma after_hook_at_call_stage:
  assumes "resolveCall rt s r = Inr (codecReq, r1, method, serviceSpec, methodSpec)"
      and "readArgs rt codecReq methodSpec = Inr args"
      and "afterFunc s = Some f"
  shows "\<exists>pre resp info.
           ServeHTTP rt s r = Returned (pre @ [Respond resp, After info])
         \<and> afterCalls pre = [] \<and> responses pre = []
         \<and> ri_Method info = method
         \<and> (case ri_Error info of
              None \<Rightarrow> ri_StatusCode info = 200 \<and> (\<exists>reply. resp = WriteResponse rt reply)
            | Some e \<Rightarrow> ri_StatusCode info = 400 \<and> resp = WriteError rt 400 e
                         \<and> resp_status resp = 400)"
proof -
  obtain ev1 r2 where 1: "callIntercept s r1 method = (ev1, r2)" by (cases "callIntercept s r1 method")
  obtain ev2 i2 where 2: "callBefore s r2 method = (ev2, i2)" by (cases "callBefore s r2 method")
  obtain ev3 e3 where 3: "callValidate s methodSpec i2 args = (ev3, e3)"
    by (cases "callValidate s methodSpec i2 args")
  have a: "afterCalls ev1 = []" "afterCalls ev2 = []" "afterCalls ev3 = []"
          "responses ev1 = []" "responses ev2 = []" "responses ev3 = []"
    using callIntercept_events [OF 1] callBefore_events [OF 2] callValidate_events [OF 3]
    by simp_all
  show ?thesis
  proof (cases e3)
    case (Some e)
    let ?pre = "ev1 @ ev2 @ ev3 @ [SetHeader ''x-content-type-options'' ''nosniff'']"
    let ?info = "\<lparr>ri_Method = method, ri_Error = Some e, ri_Request = r2, ri_StatusCode = 400\<rparr>"
    have "ServeHTTP rt s r = Returned (?pre @ [Respond (WriteError rt 400 e), After ?info])"
      using assms 1 2 3 Some by (simp add: ServeHTTP_def serveCall_def callAfter_def Let_def)
    moreover have "afterCalls ?pre = []" "responses ?pre = []"
      using a by (simp_all add: afterCalls_append responses_append)
    ultimately show ?thesis using WriteError_status by fastforce
  next
    case None
    obtain e4 rep where 4: "m_Func (sm_method methodSpec) r2
        (if sm_noArgs methodSpec then None else Some args) (Zero rt (sm_replyType methodSpec)) = (e4, rep)"
      by (cases "m_Func (sm_method methodSpec) r2
        (if sm_noArgs methodSpec then None else Some args) (Zero rt (sm_replyType methodSpec))")
    let ?pre = "ev1 @ ev2 @ ev3 @ [Invoke (svc_name serviceSpec) (m_Name (sm_method methodSpec)) r2
        (if sm_noArgs methodSpec then None else Some args),
        SetHeader ''x-content-type-options'' ''nosniff'']"
    let ?info = "\<lparr>ri_Method = method, ri_Error = e4, ri_Request = r2,
                   ri_StatusCode = (if e4 = None then 200 else 400)\<rparr>"
    let ?resp = "(case e4 of None \<Rightarrow> WriteResponse rt rep
                  | Some e \<Rightarrow> WriteError rt (if e4 = None then 200 else 400) e)"
    have "ServeHTTP rt s r = Returned (?pre @ [Respond ?resp, After ?info])"
      using assms 1 2 3 None 4 by (simp add: ServeHTTP_def serveCall_def callAfter_def Let_def)
    moreover have "afterCalls ?pre = []" "responses ?pre = []"
      using a by (simp_all add: afterCalls_append responses_append)
    moreover have "(case ri_Error ?info of
              None \<Rightarrow> ri_StatusCode ?info = 200 \<and> (\<exists>reply. ?resp = WriteResponse rt reply)
            | Some e \<Rightarrow> ri_StatusCode ?info = 400 \<and> ?resp = WriteError rt 400 e
                         \<and> resp_status ?resp = 400)"
      using WriteError_status by (cases e4) auto
    ultimately show ?thesis by (intro exI [of _ ?pre] exI [of _ ?resp] exI [of _ ?info]) simp
  qed
qed

text \<open>A request that is answered before the call stage returns without the after hook.\<close>

lemma early_answer_skips_after:
  assumes "resolveCall rt s r = Inl out"
  shows "ServeHTTP rt s r = out \<and> afterCalls (events_of out) = []"
proof -
  have "afterCalls (events_of out) = []"
    using assms
    by (auto simp: resolveCall_def methodFromCodec_def
        split: if_splits option.splits sum.splits codec.splits prod.splits)
  with assms show ?thesis by (simp add: ServeHTTP_def)
qed

text \<open>
  C7: the claim fails on a request that is answered before the call stage. With an after
  hook registered, a GET of \<open>/rpc/helloservice.missing\<close> is answered 404 and the hook is not
  called, where the claim, and the comment of \<open>RegisterAfterFunc\<close> (called after every
  request), have it called once. And where the reply does not encode, the hook is given the
  status 200 while the response is written with status 400.
\<close>

theorem after_hook_skipped_on_early_answer:
  "afterFunc hooked_server \<noteq> None
   \<and> ServeHTTP hello_rt hooked_server (get_request ''/rpc/helloservice.missing'' [])
       = Returned [Respond \<lparr>resp_status = 404, resp_contentType = ''text/plain; charset=utf-8'',
           resp_body = TextBody ''rpc: method not found: helloservice.missing''\<rparr>]
   \<and> afterCalls (events_of
        (ServeHTTP hello_rt hooked_server (get_request ''/rpc/helloservice.missing'' []))) = []
   \<and> map ri_StatusCode (afterCalls (events_of
        (ServeHTTP nan_rt hooked_server (get_request ''/rpc/PingService.Nan'' [])))) = [200]
   \<and> map resp_status (responses (events_of
        (ServeHTTP nan_rt hooked_server (get_request ''/rpc/PingService.Nan'' [])))) = [400]"
proof -
  have "afterFunc hooked_server \<noteq> None"
    by (simp add: hooked_server_def)
  moreover have "ServeHTTP hello_rt hooked_server (get_request ''/rpc/helloservice.missing'' [])
       = Returned [Respond \<lparr>resp_status = 404, resp_contentType = ''text/plain; charset=utf-8'',
           resp_body = TextBody ''rpc: method not found: helloservice.missing''\<rparr>]"
    by code_simp
  moreover have "map ri_StatusCode (afterCalls (events_of
        (ServeHTTP nan_rt hooked_server (get_request ''/rpc/PingService.Nan'' [])))) = [200]"
    by code_simp
  moreover have "map resp_status (responses (events_of
        (ServeHTTP nan_rt hooked_server (get_request ''/rpc/PingService.Nan'' [])))) = [400]"
    by code_simp
  ultimately show ?thesis by simp
qed

end
